theory Spec2Isabelle
  imports Complex_Main "HOL-Library.Char_ord" "HOL-Library.List_Lexorder"
    "HOL-Library.Product_Lexorder" "HOL-Library.Multiset"
begin

section \<open>JavaScript values\<close>

text \<open>
  The two backend services are Express applications.  Their handlers work on JSON data
  taken from the request, so the model starts with the values of the language.

  A number is a finite value or one of the three special values.  A finite value stands
  for a double, written as the rational that it is; the negative zero is the zero.  The
  operations below give the exact result where the engine gives the double nearest to it.
  The two agree whenever the exact result is itself a double, in particular when it is an
  integer of magnitude at most \<open>2\<^sup>5\<^sup>3\<close>, and on the special values; the properties
  proved below use the arithmetic of finite values only there.
\<close>

datatype jsnum = Finite rat | NaN | PosInfinity | NegInfinity

text \<open>
  A JSON value as \<open>JSON.parse\<close> and the query-string parser build it.  A property
  that is \<open>undefined\<close> is an absent one: where the source reads a property, the model
  reads a \<open>json option\<close>.
\<close>

datatype json =
    JNull
  | JBool bool
  | JNum jsnum
  | JStr string
  | JArr "json list"
  | JObj "(string \<times> json) list"

text \<open>
  The string primitives of the engine that depend on the ECMAScript number grammar and on
  Unicode are parameters of the model: the conversion of a string to a number
  (\<open>Number(s)\<close>), \<open>parseInt(s)\<close> and \<open>parseFloat(s)\<close> on a string, the rendering
  of a number as a string, and \<open>String.prototype.toLowerCase\<close>.  Every theorem below holds
  for all of them.
\<close>

record engine =
  StringToNumber :: "string \<Rightarrow> jsnum"
  parseInt_string :: "string \<Rightarrow> jsnum"
  parseFloat_string :: "string \<Rightarrow> jsnum"
  Number_toString :: "jsnum \<Rightarrow> string"
  toLowerCase :: "string \<Rightarrow> string"

subsection \<open>Truthiness and equality\<close>

definition num_truthy :: "jsnum \<Rightarrow> bool" where
  "num_truthy n = (case n of Finite r \<Rightarrow> r \<noteq> 0 | NaN \<Rightarrow> False | _ \<Rightarrow> True)"

text \<open>The value of \<open>!!v\<close>.\<close>

definition truthy :: "json \<Rightarrow> bool" where
  "truthy v = (case v of
      JNull \<Rightarrow> False
    | JBool b \<Rightarrow> b
    | JNum n \<Rightarrow> num_truthy n
    | JStr s \<Rightarrow> s \<noteq> []
    | JArr _ \<Rightarrow> True
    | JObj _ \<Rightarrow> True)"

text \<open>The value of \<open>!!v\<close> for a property that may be absent (\<open>undefined\<close> is falsy).\<close>

definition truthy_opt :: "json option \<Rightarrow> bool" where
  "truthy_opt v = (case v of None \<Rightarrow> False | Some w \<Rightarrow> truthy w)"

definition num_eq :: "jsnum \<Rightarrow> jsnum \<Rightarrow> bool" where
  "num_eq a b = (a \<noteq> NaN \<and> a = b)"

text \<open>
  \<open>a === b\<close> for a value kept in a collection and a value of the current request.
  Primitives are compared by value.  Arrays and objects are compared by reference, and the
  value of a request is a fresh object, so the comparison is false.
\<close>

definition strict_eq :: "json \<Rightarrow> json \<Rightarrow> bool" where
  "strict_eq a b = (case (a, b) of
      (JNull, JNull) \<Rightarrow> True
    | (JBool x, JBool y) \<Rightarrow> x = y
    | (JNum x, JNum y) \<Rightarrow> num_eq x y
    | (JStr x, JStr y) \<Rightarrow> x = y
    | _ \<Rightarrow> False)"

subsection \<open>Arithmetic\<close>

definition trunc :: "rat \<Rightarrow> int" where
  "trunc r = (if 0 \<le> r then \<lfloor>r\<rfloor> else \<lceil>r\<rceil>)"


definition js_neg :: "jsnum \<Rightarrow> jsnum" where
  "js_neg a = (case a of Finite x \<Rightarrow> Finite (- x) | NaN \<Rightarrow> NaN
     | PosInfinity \<Rightarrow> NegInfinity | NegInfinity \<Rightarrow> PosInfinity)"

definition js_add :: "jsnum \<Rightarrow> jsnum \<Rightarrow> jsnum" where
  "js_add a b = (case (a, b) of
      (NaN, _) \<Rightarrow> NaN
    | (_, NaN) \<Rightarrow> NaN
    | (Finite x, Finite y) \<Rightarrow> Finite (x + y)
    | (PosInfinity, NegInfinity) \<Rightarrow> NaN
    | (NegInfinity, PosInfinity) \<Rightarrow> NaN
    | (PosInfinity, _) \<Rightarrow> PosInfinity
    | (NegInfinity, _) \<Rightarrow> NegInfinity
    | (_, PosInfinity) \<Rightarrow> PosInfinity
    | (_, NegInfinity) \<Rightarrow> NegInfinity)"

definition js_sub :: "jsnum \<Rightarrow> jsnum \<Rightarrow> jsnum" where
  "js_sub a b = js_add a (js_neg b)"

text \<open>The sign of a number that is not \<open>NaN\<close>: \<open>-1\<close>, \<open>0\<close> or \<open>1\<close>.\<close>

definition js_sign :: "jsnum \<Rightarrow> int" where
  "js_sign a = (case a of Finite x \<Rightarrow> (if x < 0 then - 1 else if x = 0 then 0 else 1)
     | PosInfinity \<Rightarrow> 1 | NegInfinity \<Rightarrow> - 1 | NaN \<Rightarrow> 0)"

definition js_mul :: "jsnum \<Rightarrow> jsnum \<Rightarrow> jsnum" where
  "js_mul a b = (case (a, b) of
      (NaN, _) \<Rightarrow> NaN
    | (_, NaN) \<Rightarrow> NaN
    | (Finite x, Finite y) \<Rightarrow> Finite (x * y)
    | _ \<Rightarrow> (if js_sign a * js_sign b = 0 then NaN
            else if 0 < js_sign a * js_sign b then PosInfinity else NegInfinity))"

definition js_div :: "jsnum \<Rightarrow> jsnum \<Rightarrow> jsnum" where
  "js_div a b = (case (a, b) of
      (NaN, _) \<Rightarrow> NaN
    | (_, NaN) \<Rightarrow> NaN
    | (Finite x, Finite y) \<Rightarrow>
        (if y \<noteq> 0 then Finite (x / y)
         else if x = 0 then NaN else if 0 < x then PosInfinity else NegInfinity)
    | (Finite x, _) \<Rightarrow> Finite 0
    | (_, Finite y) \<Rightarrow>
        (if 0 \<le> js_sign a * js_sign (Finite y) then a else js_neg a)
    | _ \<Rightarrow> NaN)"

definition js_le :: "jsnum \<Rightarrow> jsnum \<Rightarrow> bool" where
  "js_le a b = (case (a, b) of
      (NaN, _) \<Rightarrow> False
    | (_, NaN) \<Rightarrow> False
    | (Finite x, Finite y) \<Rightarrow> x \<le> y
    | (NegInfinity, _) \<Rightarrow> True
    | (_, PosInfinity) \<Rightarrow> True
    | _ \<Rightarrow> False)"


definition js_ge :: "jsnum \<Rightarrow> jsnum \<Rightarrow> bool" where
  "js_ge a b = js_le b a"

text \<open>\<open>Math.max(a, b)\<close> and \<open>Math.ceil(a)\<close>.\<close>

definition Math_max :: "jsnum \<Rightarrow> jsnum \<Rightarrow> jsnum" where
  "Math_max a b = (if a = NaN \<or> b = NaN then NaN else if js_le a b then b else a)"

definition Math_ceil :: "jsnum \<Rightarrow> jsnum" where
  "Math_ceil a = (case a of Finite x \<Rightarrow> Finite (of_int \<lceil>x\<rceil>) | _ \<Rightarrow> a)"

subsection \<open>Conversions\<close>

text \<open>
  \<open>String(v)\<close>.  The result \<open>None\<close> stands for the \<open>TypeError\<close> that the engine
  throws when a value has no primitive: an object parsed from JSON with a property
  \<open>toString\<close> of its own hides the method of the prototype by a value that cannot be
  called, and the inherited \<open>valueOf\<close> returns the object itself.  An array is joined
  with commas, \<open>null\<close> elements giving the empty string.
\<close>

fun sequence_opt :: "'a option list \<Rightarrow> 'a list option" where
  "sequence_opt [] = Some []"
| "sequence_opt (x # xs) =
     (case x of None \<Rightarrow> None
      | Some y \<Rightarrow> (case sequence_opt xs of None \<Rightarrow> None | Some ys \<Rightarrow> Some (y # ys)))"

fun join :: "string \<Rightarrow> string list \<Rightarrow> string" where
  "join sep [] = []"
| "join sep [x] = x"
| "join sep (x # y # ys) = x @ sep @ join sep (y # ys)"

fun ToString :: "engine \<Rightarrow> json \<Rightarrow> string option" where
  "ToString js JNull = Some ''null''"
| "ToString js (JBool b) = Some (if b then ''true'' else ''false'')"
| "ToString js (JNum n) = Some (Number_toString js n)"
| "ToString js (JStr s) = Some s"
| "ToString js (JArr xs) =
     map_option (join '','')
       (sequence_opt (map (\<lambda>x. if x = JNull then Some [] else ToString js x) xs))"
| "ToString js (JObj kvs) =
     (if ''toString'' \<in> fst ` set kvs then None else Some ''[object Object]'')"

text \<open>\<open>Number(v)\<close>, as the operators \<open>-\<close>, \<open>*\<close>, \<open>/\<close> and \<open><=\<close> apply it.\<close>

definition ToNumber :: "engine \<Rightarrow> json \<Rightarrow> jsnum option" where
  "ToNumber js v = (case v of
      JNull \<Rightarrow> Some (Finite 0)
    | JBool b \<Rightarrow> Some (Finite (if b then 1 else 0))
    | JNum n \<Rightarrow> Some n
    | _ \<Rightarrow> map_option (StringToNumber js) (ToString js v))"

text \<open>
  \<open>parseInt(v)\<close> converts its argument to a string and reads the longest prefix that is
  an integer.  A number written without an exponent (zero, or of magnitude at least
  \<open>10\<^sup>-\<^sup>6\<close> and below \<open>10\<^sup>2\<^sup>1\<close>) is printed as its decimal expansion, so the result is the
  number truncated towards zero.
\<close>

definition plain_decimal :: "rat \<Rightarrow> bool" where
  "plain_decimal r = (r = 0 \<or> (1 / 10 ^ 6 \<le> \<bar>r\<bar> \<and> \<bar>r\<bar> < 10 ^ 21))"

definition parseInt :: "engine \<Rightarrow> json \<Rightarrow> jsnum option" where
  "parseInt js v = (case v of
      JNum NaN \<Rightarrow> Some NaN
    | JNum PosInfinity \<Rightarrow> Some NaN
    | JNum NegInfinity \<Rightarrow> Some NaN
    | JNum (Finite r) \<Rightarrow>
        Some (if plain_decimal r then Finite (of_int (trunc r))
              else parseInt_string js (Number_toString js (Finite r)))
    | _ \<Rightarrow> map_option (parseInt_string js) (ToString js v))"

text \<open>\<open>v <= 0\<close>: the operand is converted to a number, and \<open>NaN\<close> compares false.\<close>

definition le_zero :: "engine \<Rightarrow> json \<Rightarrow> bool option" where
  "le_zero js v = map_option (\<lambda>n. js_le n (Finite 0)) (ToNumber js v)"

text \<open>\<open>parseFloat(v)\<close>: a number is printed so that reading it back gives the number.\<close>

definition parseFloat :: "engine \<Rightarrow> json \<Rightarrow> jsnum option" where
  "parseFloat js v = (case v of
      JNum n \<Rightarrow> Some n
    | _ \<Rightarrow> map_option (parseFloat_string js) (ToString js v))"

subsection \<open>Arrays\<close>

text \<open>
  \<open>Array.prototype.slice(start, end)\<close>: both arguments are truncated to integers
  (\<open>NaN\<close> is 0), a negative one counts from the end, and both are clamped to the array.
\<close>

definition relative_index :: "nat \<Rightarrow> jsnum \<Rightarrow> nat" where
  "relative_index len n = (case n of
      NaN \<Rightarrow> 0
    | NegInfinity \<Rightarrow> 0
    | PosInfinity \<Rightarrow> len
    | Finite r \<Rightarrow>
        (if trunc r < 0 then nat (max (int len + trunc r) 0) else min (nat (trunc r)) len))"

definition slice :: "'a list \<Rightarrow> jsnum \<Rightarrow> jsnum \<Rightarrow> 'a list" where
  "slice xs start stop =
     (let k = relative_index (length xs) start;
          final = relative_index (length xs) stop
      in take (final - k) (drop k xs))"

text \<open>\<open>Array.prototype.findIndex\<close>; \<open>None\<close> is the result \<open>-1\<close>.\<close>

fun findIndex :: "('a \<Rightarrow> bool) \<Rightarrow> 'a list \<Rightarrow> nat option" where
  "findIndex P [] = None"
| "findIndex P (x # xs) =
     (if P x then Some 0 else map_option Suc (findIndex P xs))"

text \<open>\<open>xs.splice(i, 1)\<close>: the array without the element at index \<open>i\<close>.\<close>

definition splice1 :: "nat \<Rightarrow> 'a list \<Rightarrow> 'a list" where
  "splice1 i xs = take i xs @ drop (Suc i) xs"

text \<open>
  \<open>xs.filter(p)\<close> where the callback may throw: the first element on which it throws
  ends the call.
\<close>

fun filter_opt :: "('a \<Rightarrow> bool option) \<Rightarrow> 'a list \<Rightarrow> 'a list option" where
  "filter_opt p [] = Some []"
| "filter_opt p (x # xs) =
     (case p x of None \<Rightarrow> None
      | Some b \<Rightarrow> (case filter_opt p xs of None \<Rightarrow> None
                   | Some ys \<Rightarrow> Some (if b then x # ys else ys)))"

text \<open>\<open>s.includes(t)\<close> on strings.\<close>

fun is_prefix :: "string \<Rightarrow> string \<Rightarrow> bool" where
  "is_prefix [] s = True"
| "is_prefix (c # t) [] = False"
| "is_prefix (c # t) (d # s) = (c = d \<and> is_prefix t s)"

fun includes_str :: "string \<Rightarrow> string \<Rightarrow> bool" where
  "includes_str [] t = (t = [])"
| "includes_str (c # s) t = (is_prefix t (c # s) \<or> includes_str s t)"

text \<open>
  \<open>v.toLowerCase()\<close> on a stored value: a value that is not a string has no such method
  and the call throws.
\<close>

definition lower_of :: "engine \<Rightarrow> json \<Rightarrow> string option" where
  "lower_of js v = (case v of JStr s \<Rightarrow> Some (toLowerCase js s) | _ \<Rightarrow> None)"

section \<open>Requests and responses\<close>

text \<open>The methods for which the two services register routes.\<close>

datatype http_method = GET | POST | PUT | PATCH | DELETE

text \<open>
  A request after the middleware: the path as its decoded, non-empty segments, the parsed
  query string \<open>req.query\<close> and the parsed body \<open>req.body\<close>.
\<close>

record request =
  req_method :: http_method
  path :: "string list"
  query :: "string \<rightharpoonup> json"
  body :: "string \<rightharpoonup> json"

text \<open>A response: the status code and the value given to \<open>res.json\<close>.\<close>

record response =
  status :: nat
  payload :: json

text \<open>What a handler reads from outside: the clock, the next UUID and the uptime.\<close>

record env =
  now :: string
  uuid :: string
  uptime :: jsnum

definition json_field :: "string \<Rightarrow> json \<Rightarrow> json option" where
  "json_field k v = (case v of JObj kvs \<Rightarrow> map_of kvs k | _ \<Rightarrow> None)"

definition error_body :: "string \<Rightarrow> string \<Rightarrow> json" where
  "error_body e m = JObj [(''error'', JStr e), (''message'', JStr m)]"

text \<open>The error-handling middleware and the final handler, the same in both services.\<close>

definition error_middleware :: response where
  "error_middleware =
     \<lparr>status = 500, payload = error_body ''Internal Server Error'' ''Something went wrong!''\<rparr>"

definition not_found_handler :: response where
  "not_found_handler =
     \<lparr>status = 404,
      payload = error_body ''Not Found'' ''The requested resource was not found''\<rparr>"

text \<open>
  A handler takes the collection of its service and returns it with the response.  A
  handler that throws gives \<open>None\<close> for the response; Express then runs the
  error-handling middleware.
\<close>

definition finish :: "response option \<Rightarrow> response" where
  "finish r = (case r of None \<Rightarrow> error_middleware | Some x \<Rightarrow> x)"

text \<open>
  Express compares the literal segments of a route without regard to the case of ASCII
  letters.
\<close>

definition ascii_lower :: "char \<Rightarrow> char" where
  "ascii_lower c =
     (if 65 \<le> (of_char c :: nat) \<and> (of_char c :: nat) \<le> 90
      then char_of ((of_char c :: nat) + 32) else c)"

definition seg :: "string \<Rightarrow> string \<Rightarrow> bool" where
  "seg literal s = (map ascii_lower s = literal)"

text \<open>The pagination of both list handlers.\<close>

definition paginate ::
  "engine \<Rightarrow> json \<Rightarrow> json \<Rightarrow> 'a list \<Rightarrow> ('a list \<times> json) option" where
  "paginate js page limit filtered =
     (case (ToNumber js page, ToNumber js limit, parseInt js page, parseInt js limit) of
        (Some p, Some l, Some page_int, Some limit_int) \<Rightarrow>
          (let startIndex = js_mul (js_sub p (Finite 1)) l;
               endIndex = js_mul p l
           in Some (slice filtered startIndex endIndex,
                JObj [(''page'', JNum page_int),
                      (''limit'', JNum limit_int),
                      (''total'', JNum (Finite (of_nat (length filtered)))),
                      (''pages'',
                        JNum (Math_ceil (js_div (Finite (of_nat (length filtered))) l)))]))
      | _ \<Rightarrow> None)"

section \<open>The user service\<close>

record user =
  user_id :: string
  user_name :: json
  user_email :: json
  user_role :: json
  user_createdAt :: string
  user_updatedAt :: "string option"

text \<open>The mock database at start-up; \<open>t\<close> is the time of the start.\<close>

definition initial_users :: "string \<Rightarrow> user list" where
  "initial_users t =
     [\<lparr>user_id = ''1'', user_name = JStr (''Jo'' @ [CHR 0xC3, CHR 0xA3] @ ''o Silva''),
       user_email = JStr ''joao@example.com'', user_role = JStr ''admin'',
       user_createdAt = t, user_updatedAt = None\<rparr>,
      \<lparr>user_id = ''2'', user_name = JStr ''Maria Santos'',
       user_email = JStr ''maria@example.com'', user_role = JStr ''user'',
       user_createdAt = t, user_updatedAt = None\<rparr>,
      \<lparr>user_id = ''3'', user_name = JStr ''Pedro Oliveira'',
       user_email = JStr ''pedro@example.com'', user_role = JStr ''user'',
       user_createdAt = t, user_updatedAt = None\<rparr>]"

definition user_json :: "user \<Rightarrow> json" where
  "user_json u =
     JObj ([(''id'', JStr (user_id u)), (''name'', user_name u), (''email'', user_email u),
            (''role'', user_role u), (''createdAt'', JStr (user_createdAt u))]
           @ (case user_updatedAt u of None \<Rightarrow> [] | Some t \<Rightarrow> [(''updatedAt'', JStr t)]))"

definition user_not_found :: "string \<Rightarrow> response" where
  "user_not_found i =
     \<lparr>status = 404,
      payload = error_body ''User not found'' (''User with ID '' @ i @ '' does not exist'')\<rparr>"

text \<open>\<open>GET /health\<close>\<close>

definition user_health :: "env \<Rightarrow> user list \<Rightarrow> response \<times> user list" where
  "user_health e users =
     (\<lparr>status = 200,
       payload = JObj [(''status'', JStr ''healthy''), (''service'', JStr ''user-service''),
                       (''timestamp'', JStr (now e)), (''uptime'', JNum (uptime e))]\<rparr>,
      users)"

text \<open>\<open>GET /users\<close>\<close>

definition get_users ::
  "engine \<Rightarrow> user list \<Rightarrow> request \<Rightarrow> response option \<times> user list" where
  "get_users js users req =
     (let page = (case query req ''page'' of None \<Rightarrow> JNum (Finite 1) | Some v \<Rightarrow> v);
          limit = (case query req ''limit'' of None \<Rightarrow> JNum (Finite 10) | Some v \<Rightarrow> v);
          role = query req ''role'';
          filteredUsers =
            (case role of
               None \<Rightarrow> users
             | Some r \<Rightarrow>
                 if truthy r then filter (\<lambda>user. strict_eq (user_role user) r) users
                 else users)
      in (map_option
            (\<lambda>(paginatedUsers, pagination).
               \<lparr>status = 200,
                payload = JObj [(''data'', JArr (map user_json paginatedUsers)),
                                (''pagination'', pagination)]\<rparr>)
            (paginate js page limit filteredUsers),
          users))"

text \<open>\<open>GET /users/:id\<close>\<close>

definition get_user :: "user list \<Rightarrow> string \<Rightarrow> response \<times> user list" where
  "get_user users i =
     (case find (\<lambda>u. user_id u = i) users of
        None \<Rightarrow> (user_not_found i, users)
      | Some user \<Rightarrow>
          (\<lparr>status = 200, payload = JObj [(''data'', user_json user)]\<rparr>, users))"

text \<open>\<open>POST /users\<close>\<close>

definition post_users :: "env \<Rightarrow> user list \<Rightarrow> request \<Rightarrow> response \<times> user list" where
  "post_users e users req =
     (let role = (case body req ''role'' of None \<Rightarrow> JStr ''user'' | Some r \<Rightarrow> r)
      in case (body req ''name'', body req ''email'') of
        (Some name, Some email) \<Rightarrow>
          if \<not> truthy name \<or> \<not> truthy email then
            (\<lparr>status = 400,
              payload = error_body ''Validation error'' ''Name and email are required''\<rparr>,
             users)
          else (case find (\<lambda>u. strict_eq (user_email u) email) users of
            Some existingUser \<Rightarrow>
              (\<lparr>status = 409,
                payload = error_body ''Conflict'' ''User with this email already exists''\<rparr>,
               users)
          | None \<Rightarrow>
              (let newUser = \<lparr>user_id = uuid e, user_name = name, user_email = email,
                               user_role = role, user_createdAt = now e,
                               user_updatedAt = None\<rparr>
               in (\<lparr>status = 201,
                    payload = JObj [(''data'', user_json newUser),
                                    (''message'', JStr ''User created successfully'')]\<rparr>,
                   users @ [newUser])))
      | _ \<Rightarrow>
          (\<lparr>status = 400,
            payload = error_body ''Validation error'' ''Name and email are required''\<rparr>,
           users))"

text \<open>\<open>PUT /users/:id\<close>\<close>

definition put_user :: "env \<Rightarrow> user list \<Rightarrow> string \<Rightarrow> request \<Rightarrow> response \<times> user list" where
  "put_user e users i req =
     (case findIndex (\<lambda>u. user_id u = i) users of
        None \<Rightarrow> (user_not_found i, users)
      | Some userIndex \<Rightarrow>
          (let u0 = users ! userIndex;
               u1 = (case body req ''name'' of
                       Some name \<Rightarrow> if truthy name then u0\<lparr>user_name := name\<rparr> else u0
                     | None \<Rightarrow> u0);
               u2 = (case body req ''email'' of
                       Some email \<Rightarrow> if truthy email then u1\<lparr>user_email := email\<rparr> else u1
                     | None \<Rightarrow> u1);
               u3 = (case body req ''role'' of
                       Some role \<Rightarrow> if truthy role then u2\<lparr>user_role := role\<rparr> else u2
                     | None \<Rightarrow> u2);
               u4 = u3\<lparr>user_updatedAt := Some (now e)\<rparr>
           in (\<lparr>status = 200,
                payload = JObj [(''data'', user_json u4),
                                (''message'', JStr ''User updated successfully'')]\<rparr>,
               users[userIndex := u4])))"

text \<open>\<open>DELETE /users/:id\<close>\<close>

definition delete_user :: "user list \<Rightarrow> string \<Rightarrow> response \<times> user list" where
  "delete_user users i =
     (case findIndex (\<lambda>u. user_id u = i) users of
        None \<Rightarrow> (user_not_found i, users)
      | Some userIndex \<Rightarrow>
          (\<lparr>status = 200,
            payload = JObj [(''data'', user_json (users ! userIndex)),
                            (''message'', JStr ''User deleted successfully'')]\<rparr>,
           splice1 userIndex users))"

text \<open>\<open>GET /users/search/:query\<close>\<close>

definition user_matches :: "engine \<Rightarrow> string \<Rightarrow> user \<Rightarrow> bool option" where
  "user_matches js q user =
     (case lower_of js (user_name user) of
        None \<Rightarrow> None
      | Some n \<Rightarrow>
          if includes_str n (toLowerCase js q) then Some True
          else (case lower_of js (user_email user) of
                  None \<Rightarrow> None
                | Some m \<Rightarrow> Some (includes_str m (toLowerCase js q))))"

definition search_users ::
  "engine \<Rightarrow> user list \<Rightarrow> string \<Rightarrow> response option \<times> user list" where
  "search_users js users q =
     (map_option
        (\<lambda>searchResults.
           \<lparr>status = 200,
            payload = JObj [(''data'', JArr (map user_json searchResults)),
                            (''query'', JStr q),
                            (''count'', JNum (Finite (of_nat (length searchResults))))]\<rparr>)
        (filter_opt (user_matches js q) users),
      users)"

text \<open>
  The application: the routes in the order of their registration, then the final handler.
\<close>

definition user_service ::
  "engine \<Rightarrow> env \<Rightarrow> user list \<Rightarrow> request \<Rightarrow> response \<times> user list" where
  "user_service js e users req =
     (case (req_method req, path req) of
        (GET, [a]) \<Rightarrow>
          if seg ''health'' a then user_health e users
          else if seg ''users'' a then apfst finish (get_users js users req)
          else (not_found_handler, users)
      | (GET, [a, i]) \<Rightarrow>
          if seg ''users'' a then get_user users i
          else (not_found_handler, users)
      | (GET, [a, b, q]) \<Rightarrow>
          if seg ''users'' a \<and> seg ''search'' b then apfst finish (search_users js users q)
          else (not_found_handler, users)
      | (POST, [a]) \<Rightarrow>
          if seg ''users'' a then post_users e users req else (not_found_handler, users)
      | (PUT, [a, i]) \<Rightarrow>
          if seg ''users'' a then put_user e users i req else (not_found_handler, users)
      | (DELETE, [a, i]) \<Rightarrow>
          if seg ''users'' a then delete_user users i else (not_found_handler, users)
      | _ \<Rightarrow> (not_found_handler, users))"

section \<open>The product service\<close>

record product =
  product_id :: string
  product_name :: json
  product_description :: json
  product_price :: jsnum
  product_category :: json
  product_stock :: jsnum
  product_createdAt :: string
  product_updatedAt :: "string option"

definition initial_products :: "string \<Rightarrow> product list" where
  "initial_products t =
     [\<lparr>product_id = ''1'', product_name = JStr ''Smartphone Galaxy'',
       product_description = JStr ''Smartphone Android com 128GB de armazenamento'',
       product_price = Finite (89999 / 100), product_category = JStr ''electronics'',
       product_stock = Finite 50, product_createdAt = t, product_updatedAt = None\<rparr>,
      \<lparr>product_id = ''2'', product_name = JStr ''Notebook Dell'',
       product_description = JStr ''Notebook Dell Inspiron 15 com Intel i5'',
       product_price = Finite (249999 / 100), product_category = JStr ''electronics'',
       product_stock = Finite 25, product_createdAt = t, product_updatedAt = None\<rparr>,
      \<lparr>product_id = ''3'',
       product_name = JStr (''Camiseta B'' @ [CHR 0xC3, CHR 0xA1] @ ''sica''),
       product_description =
         JStr (''Camiseta 100% algod'' @ [CHR 0xC3, CHR 0xA3] @ ''o, v''
               @ [CHR 0xC3, CHR 0xA1] @ ''rias cores''),
       product_price = Finite (2999 / 100), product_category = JStr ''clothing'',
       product_stock = Finite 100, product_createdAt = t, product_updatedAt = None\<rparr>,
      \<lparr>product_id = ''4'', product_name = JStr ''Livro JavaScript'',
       product_description = JStr ''Guia completo de JavaScript moderno'',
       product_price = Finite (5999 / 100), product_category = JStr ''books'',
       product_stock = Finite 30, product_createdAt = t, product_updatedAt = None\<rparr>]"

definition product_json :: "product \<Rightarrow> json" where
  "product_json p =
     JObj ([(''id'', JStr (product_id p)), (''name'', product_name p),
            (''description'', product_description p), (''price'', JNum (product_price p)),
            (''category'', product_category p), (''stock'', JNum (product_stock p)),
            (''createdAt'', JStr (product_createdAt p))]
           @ (case product_updatedAt p of None \<Rightarrow> [] | Some t \<Rightarrow> [(''updatedAt'', JStr t)]))"

definition product_not_found :: "string \<Rightarrow> response" where
  "product_not_found i =
     \<lparr>status = 404,
      payload =
        error_body ''Product not found'' (''Product with ID '' @ i @ '' does not exist'')\<rparr>"

text \<open>\<open>GET /health\<close>\<close>

definition product_health :: "env \<Rightarrow> product list \<Rightarrow> response \<times> product list" where
  "product_health e products =
     (\<lparr>status = 200,
       payload = JObj [(''status'', JStr ''healthy''), (''service'', JStr ''product-service''),
                       (''timestamp'', JStr (now e)), (''uptime'', JNum (uptime e))]\<rparr>,
      products)"

text \<open>
  \<open>GET /products\<close>.  The bound of a price filter is parsed inside the callback, once for
  each product, so a bound that cannot be converted throws only when there is a product to
  test.
\<close>

definition filter_if ::
  "json option \<Rightarrow> (json \<Rightarrow> product \<Rightarrow> bool option) \<Rightarrow> product list \<Rightarrow> product list option"
  where
  "filter_if v test ps =
     (case v of
        None \<Rightarrow> Some ps
      | Some w \<Rightarrow> if truthy w then filter_opt (test w) ps else Some ps)"

definition get_products ::
  "engine \<Rightarrow> product list \<Rightarrow> request \<Rightarrow> response option \<times> product list" where
  "get_products js products req =
     (let page = (case query req ''page'' of None \<Rightarrow> JNum (Finite 1) | Some v \<Rightarrow> v);
          limit = (case query req ''limit'' of None \<Rightarrow> JNum (Finite 10) | Some v \<Rightarrow> v)
      in
       (Option.bind
          (filter_if (query req ''category'')
             (\<lambda>category product. Some (strict_eq (product_category product) category))
             products)
          (\<lambda>byCategory.
        Option.bind
          (filter_if (query req ''minPrice'')
             (\<lambda>minPrice product.
                map_option (\<lambda>bound. js_ge (product_price product) bound)
                  (parseFloat js minPrice))
             byCategory)
          (\<lambda>byMinPrice.
        Option.bind
          (filter_if (query req ''maxPrice'')
             (\<lambda>maxPrice product.
                map_option (\<lambda>bound. js_le (product_price product) bound)
                  (parseFloat js maxPrice))
             byMinPrice)
          (\<lambda>filteredProducts.
        map_option
          (\<lambda>(paginatedProducts, pagination).
             \<lparr>status = 200,
              payload = JObj [(''data'', JArr (map product_json paginatedProducts)),
                              (''pagination'', pagination)]\<rparr>)
          (paginate js page limit filteredProducts)))),
        products))"

text \<open>\<open>GET /products/:id\<close>\<close>

definition get_product :: "product list \<Rightarrow> string \<Rightarrow> response \<times> product list" where
  "get_product products i =
     (case find (\<lambda>p. product_id p = i) products of
        None \<Rightarrow> (product_not_found i, products)
      | Some product \<Rightarrow>
          (\<lparr>status = 200, payload = JObj [(''data'', product_json product)]\<rparr>, products))"

text \<open>
  \<open>POST /products\<close>.  The first component is \<open>None\<close> when the handler throws; nothing
  has been pushed by then.
\<close>

definition required_missing :: response where
  "required_missing =
     \<lparr>status = 400,
      payload = error_body ''Validation error''
                  ''Name, description, price, and category are required''\<rparr>"

definition price_not_positive :: response where
  "price_not_positive =
     \<lparr>status = 400,
      payload = error_body ''Validation error'' ''Price must be greater than 0''\<rparr>"

definition post_products ::
  "engine \<Rightarrow> env \<Rightarrow> product list \<Rightarrow> request \<Rightarrow> response option \<times> product list" where
  "post_products js e products req =
     (let stock = (case body req ''stock'' of None \<Rightarrow> JNum (Finite 0) | Some s \<Rightarrow> s)
      in case (body req ''name'', body req ''description'', body req ''price'',
               body req ''category'') of
        (Some name, Some description, Some price, Some category) \<Rightarrow>
          if \<not> truthy name \<or> \<not> truthy description \<or> \<not> truthy price \<or> \<not> truthy category
          then (Some required_missing, products)
          else (case le_zero js price of
            None \<Rightarrow> (None, products)
          | Some non_positive \<Rightarrow>
              if non_positive then (Some price_not_positive, products)
              else (case (parseFloat js price, parseInt js stock) of
                (Some price_number, Some stock_number) \<Rightarrow>
                  (let newProduct =
                         \<lparr>product_id = uuid e, product_name = name,
                          product_description = description, product_price = price_number,
                          product_category = category, product_stock = stock_number,
                          product_createdAt = now e, product_updatedAt = None\<rparr>
                   in (Some \<lparr>status = 201,
                        payload = JObj [(''data'', product_json newProduct),
                                        (''message'', JStr ''Product created successfully'')]\<rparr>,
                       products @ [newProduct]))
              | _ \<Rightarrow> (None, products)))
      | _ \<Rightarrow> (Some required_missing, products))"

text \<open>
  \<open>PUT /products/:id\<close>.  The fields are assigned one after the other on the stored
  object, so the assignments made before a conversion throws stay.
\<close>

definition assign_if_truthy ::
  "json option \<Rightarrow> (json \<Rightarrow> product \<Rightarrow> product) \<Rightarrow> product \<Rightarrow> product" where
  "assign_if_truthy v upd p =
     (case v of None \<Rightarrow> p | Some w \<Rightarrow> if truthy w then upd w p else p)"

definition put_product ::
  "engine \<Rightarrow> env \<Rightarrow> product list \<Rightarrow> string \<Rightarrow> request \<Rightarrow> response option \<times> product list"
  where
  "put_product js e products i req =
     (case findIndex (\<lambda>p. product_id p = i) products of
        None \<Rightarrow> (Some (product_not_found i), products)
      | Some productIndex \<Rightarrow>
          (let p0 = products ! productIndex;
               p1 = assign_if_truthy (body req ''name'') (\<lambda>v p. p\<lparr>product_name := v\<rparr>) p0;
               p2 = assign_if_truthy (body req ''description'')
                      (\<lambda>v p. p\<lparr>product_description := v\<rparr>) p1
           in case (case body req ''price'' of
                      None \<Rightarrow> Some p2
                    | Some price \<Rightarrow>
                        if truthy price
                        then map_option (\<lambda>n. p2\<lparr>product_price := n\<rparr>) (parseFloat js price)
                        else Some p2) of
                None \<Rightarrow> (None, products[productIndex := p2])
              | Some p3 \<Rightarrow>
                  (let p4 = assign_if_truthy (body req ''category'')
                              (\<lambda>v p. p\<lparr>product_category := v\<rparr>) p3
                   in case (case body req ''stock'' of
                              None \<Rightarrow> Some p4
                            | Some stock \<Rightarrow>
                                map_option (\<lambda>n. p4\<lparr>product_stock := n\<rparr>)
                                  (parseInt js stock)) of
                        None \<Rightarrow> (None, products[productIndex := p4])
                      | Some p5 \<Rightarrow>
                          (let p6 = p5\<lparr>product_updatedAt := Some (now e)\<rparr>
                           in (Some \<lparr>status = 200,
                                payload =
                                  JObj [(''data'', product_json p6),
                                        (''message'', JStr ''Product updated successfully'')]\<rparr>,
                               products[productIndex := p6])))))"

text \<open>\<open>DELETE /products/:id\<close>\<close>

definition delete_product :: "product list \<Rightarrow> string \<Rightarrow> response \<times> product list" where
  "delete_product products i =
     (case findIndex (\<lambda>p. product_id p = i) products of
        None \<Rightarrow> (product_not_found i, products)
      | Some productIndex \<Rightarrow>
          (\<lparr>status = 200,
            payload = JObj [(''data'', product_json (products ! productIndex)),
                            (''message'', JStr ''Product deleted successfully'')]\<rparr>,
           splice1 productIndex products))"

text \<open>\<open>GET /products/search/:query\<close>\<close>

definition field_includes :: "engine \<Rightarrow> string \<Rightarrow> json \<Rightarrow> bool option" where
  "field_includes js q v = map_option (\<lambda>s. includes_str s (toLowerCase js q)) (lower_of js v)"

definition product_matches :: "engine \<Rightarrow> string \<Rightarrow> product \<Rightarrow> bool option" where
  "product_matches js q product =
     (case field_includes js q (product_name product) of
        None \<Rightarrow> None
      | Some True \<Rightarrow> Some True
      | Some False \<Rightarrow>
          (case field_includes js q (product_description product) of
             None \<Rightarrow> None
           | Some True \<Rightarrow> Some True
           | Some False \<Rightarrow> field_includes js q (product_category product)))"

definition search_products ::
  "engine \<Rightarrow> product list \<Rightarrow> string \<Rightarrow> response option \<times> product list" where
  "search_products js products q =
     (map_option
        (\<lambda>searchResults.
           \<lparr>status = 200,
            payload = JObj [(''data'', JArr (map product_json searchResults)),
                            (''query'', JStr q),
                            (''count'', JNum (Finite (of_nat (length searchResults))))]\<rparr>)
        (filter_opt (product_matches js q) products),
      products)"

text \<open>
  \<open>GET /categories\<close>.  A \<open>Set\<close> keeps the first of the values that are the same:
  primitives by value (\<open>NaN\<close> is the same as \<open>NaN\<close>), arrays and objects by reference,
  and no two products hold the same object.
\<close>

definition same_value_zero :: "json \<Rightarrow> json \<Rightarrow> bool" where
  "same_value_zero a b = (case (a, b) of
      (JNull, JNull) \<Rightarrow> True
    | (JBool x, JBool y) \<Rightarrow> x = y
    | (JNum x, JNum y) \<Rightarrow> x = y
    | (JStr x, JStr y) \<Rightarrow> x = y
    | _ \<Rightarrow> False)"

fun set_of_values :: "json list \<Rightarrow> json list \<Rightarrow> json list" where
  "set_of_values seen [] = seen"
| "set_of_values seen (v # vs) =
     set_of_values (if list_ex (\<lambda>w. same_value_zero w v) seen then seen else seen @ [v]) vs"

definition get_categories :: "product list \<Rightarrow> response \<times> product list" where
  "get_categories products =
     (let categories = set_of_values [] (map product_category products)
      in (\<lparr>status = 200,
           payload = JObj [(''data'', JArr categories),
                           (''count'', JNum (Finite (of_nat (length categories))))]\<rparr>,
          products))"

text \<open>\<open>PATCH /products/:id/stock\<close>\<close>

definition patch_stock ::
  "engine \<Rightarrow> env \<Rightarrow> product list \<Rightarrow> string \<Rightarrow> request \<Rightarrow> response option \<times> product list"
  where
  "patch_stock js e products i req =
     (let operation = (case body req ''operation'' of None \<Rightarrow> JStr ''set'' | Some v \<Rightarrow> v)
      in case findIndex (\<lambda>p. product_id p = i) products of
        None \<Rightarrow> (Some (product_not_found i), products)
      | Some productIndex \<Rightarrow>
          (case body req ''quantity'' of
             None \<Rightarrow>
               (Some \<lparr>status = 400,
                  payload = error_body ''Validation error'' ''Quantity is required''\<rparr>,
                products)
           | Some quantity \<Rightarrow>
               (case parseInt js quantity of
                  None \<Rightarrow> (None, products)
                | Some n \<Rightarrow>
                    (let product = products ! productIndex;
                         stock =
                           (if strict_eq operation (JStr ''add'')
                            then js_add (product_stock product) n
                            else if strict_eq operation (JStr ''subtract'')
                            then Math_max (Finite 0) (js_sub (product_stock product) n)
                            else n);
                         updated = product\<lparr>product_stock := stock,
                                            product_updatedAt := Some (now e)\<rparr>
                     in (Some \<lparr>status = 200,
                          payload = JObj [(''data'', product_json updated),
                                          (''message'', JStr ''Stock updated successfully'')]\<rparr>,
                         products[productIndex := updated])))))"

definition product_service ::
  "engine \<Rightarrow> env \<Rightarrow> product list \<Rightarrow> request \<Rightarrow> response \<times> product list" where
  "product_service js e products req =
     (case (req_method req, path req) of
        (GET, [a]) \<Rightarrow>
          if seg ''health'' a then product_health e products
          else if seg ''products'' a then apfst finish (get_products js products req)
          else if seg ''categories'' a then get_categories products
          else (not_found_handler, products)
      | (GET, [a, i]) \<Rightarrow>
          if seg ''products'' a then get_product products i
          else (not_found_handler, products)
      | (GET, [a, b, q]) \<Rightarrow>
          if seg ''products'' a \<and> seg ''search'' b
          then apfst finish (search_products js products q)
          else (not_found_handler, products)
      | (POST, [a]) \<Rightarrow>
          if seg ''products'' a then apfst finish (post_products js e products req)
          else (not_found_handler, products)
      | (PUT, [a, i]) \<Rightarrow>
          if seg ''products'' a then apfst finish (put_product js e products i req)
          else (not_found_handler, products)
      | (DELETE, [a, i]) \<Rightarrow>
          if seg ''products'' a then delete_product products i
          else (not_found_handler, products)
      | (PATCH, [a, i, b]) \<Rightarrow>
          if seg ''products'' a \<and> seg ''stock'' b
          then apfst finish (patch_stock js e products i req)
          else (not_found_handler, products)
      | _ \<Rightarrow> (not_found_handler, products))"

text \<open>
  For evaluating requests at concrete inputs: an engine whose string primitives are
  trivial, for requests that convert no string, and a fixed environment.
\<close>

definition no_string_engine :: engine where
  "no_string_engine =
     \<lparr>StringToNumber = (\<lambda>s. NaN), parseInt_string = (\<lambda>s. NaN),
      parseFloat_string = (\<lambda>s. NaN), Number_toString = (\<lambda>n. []),
      toLowerCase = (\<lambda>s. s)\<rparr>"

definition sample_env :: env where
  "sample_env =
     \<lparr>now = ''2024-05-01T10:00:00.000Z'', uuid = ''6f1c2a9e-0b7d-4c55-9a3e-2d4f8b1c7e90'',
      uptime = Finite 12\<rparr>"

section \<open>The gateway\<close>

text \<open>
  The gateway itself (the directory \<open>gateway/\<close> of the repository) is not among the
  sources at hand.  Its routing and caching engine is modelled from the specification,
  sections 3 and 4.
\<close>

text \<open>
  Modelled from the spec: the HTTP methods that the missing Request Router tells apart
  (section 4.4): the reads \<open>GET\<close> and \<open>HEAD\<close>, the mutating writes, and the others.
\<close>

datatype verb = Get | Head | Post | Put | Patch | Delete | Options

text \<open>
  Modelled from the spec: the inbound request of the missing gateway, with the arguments
  of \<open>buildKey\<close> (method, path, query, headers) and the body that is forwarded.
\<close>

record gw_request =
  gw_method :: verb
  gw_path :: string
  gw_query :: "(string \<times> string) list"
  gw_headers :: "(string \<times> string) list"
  gw_body :: string

text \<open>
  Modelled from the spec: the body of a response of the missing gateway: the bytes of a
  backend, or the structured JSON error of the gateway (section 7).
\<close>

datatype content = Bytes string | Structured json

text \<open>
  Modelled from the spec: a response of the missing gateway or of a backend: status,
  headers and body (section 1).
\<close>

record gw_response =
  statusCode :: nat
  headers :: "(string \<times> string) list"
  content :: content

text \<open>
  Modelled from the spec: the data model \<open>CacheEntry\<close> of section 3, whose declaration
  is in the missing gateway.  \<open>storedAt + ttlSeconds\<close> is the absolute instant of expiry,
  in seconds.
\<close>

record CacheEntry =
  entry_key :: string
  entry_body :: string
  entry_statusCode :: nat
  entry_headers :: "(string \<times> string) list"
  storedAt :: int
  ttlSeconds :: int

text \<open>
  Modelled from the spec: the data model \<open>Route\<close> of section 3, whose declaration is
  in the missing gateway.
\<close>

record Route =
  pathPrefix :: string
  targetBaseURL :: string
  cacheable :: bool
  route_ttlSeconds :: int

subsection \<open>Cache Key Builder\<close>

text \<open>
  Modelled from the spec: the name of the method as the missing Cache Key Builder puts it
  in a key (section 4.1).
\<close>

definition verb_name :: "verb \<Rightarrow> string" where
  "verb_name m = (case m of Get \<Rightarrow> ''GET'' | Head \<Rightarrow> ''HEAD'' | Post \<Rightarrow> ''POST''
     | Put \<Rightarrow> ''PUT'' | Patch \<Rightarrow> ''PATCH'' | Delete \<Rightarrow> ''DELETE'' | Options \<Rightarrow> ''OPTIONS'')"

text \<open>
  Modelled from the spec: the normalisation of the path by the missing Cache Key Builder
  (section 4.1): trailing slashes are stripped, the case is kept.
\<close>

definition normalize_path :: "string \<Rightarrow> string" where
  "normalize_path p = rev (dropWhile (\<lambda>c. c = CHR ''/'') (rev p))"

text \<open>
  Modelled from the spec: the concatenation of the query parameters by the missing Cache
  Key Builder (section 4.1).  The specification fixes no format; it asks that the keys of
  distinct requests differ, so the three characters that the format uses are escaped in
  names and values.
\<close>

definition escape_char :: "char \<Rightarrow> string" where
  "escape_char c =
     (if c = CHR ''%'' then ''%25''
      else if c = CHR ''&'' then ''%26''
      else if c = CHR ''='' then ''%3D''
      else [c])"

text \<open>
  Modelled from the spec: a name or a value of a query parameter as the missing Cache Key
  Builder writes it in a key, character by character.
\<close>

definition escape :: "string \<Rightarrow> string" where
  "escape s = concat (map escape_char s)"

text \<open>
  Modelled from the spec: one query parameter in a key of the missing Cache Key Builder,
  written \<open>name=value\<close> as in the examples of section 4.1.
\<close>

definition render_param :: "string \<times> string \<Rightarrow> string" where
  "render_param nv = escape (fst nv) @ ''='' @ escape (snd nv)"

text \<open>
  Modelled from the spec: \<open>buildKey(method, path, query, headers)\<close> of the missing Cache
  Key Builder (section 4.1): the method, the normalised path and the query parameters
  sorted by name (parameters of one name by value).  The whitelist of headers is optional
  in the specification and is empty here, so the key does not depend on the headers.
\<close>

definition buildKey ::
  "verb \<Rightarrow> string \<Rightarrow> (string \<times> string) list \<Rightarrow> (string \<times> string) list \<Rightarrow> string" where
  "buildKey m p q h =
     verb_name m @ '':'' @ normalize_path p @ ''?'' @ join ''&'' (map render_param (sort q))"

subsection \<open>Cache Store\<close>

type_synonym cache_store = "string \<rightharpoonup> CacheEntry"

text \<open>
  Modelled from the spec: \<open>get\<close> of the missing Cache Store (section 4.2).  An entry
  whose \<open>storedAt + ttlSeconds\<close> has elapsed at the instant \<open>t\<close> is absent; expiry is
  passive, the entry is not removed.
\<close>

definition cache_get :: "cache_store \<Rightarrow> int \<Rightarrow> string \<Rightarrow> CacheEntry option" where
  "cache_get store t k =
     (case store k of
        None \<Rightarrow> None
      | Some entry \<Rightarrow> if storedAt entry + ttlSeconds entry \<le> t then None else Some entry)"

text \<open>
  Modelled from the spec: \<open>set(key, entry)\<close> of the missing Cache Store (section 4.2),
  with the default unbounded capacity: the entry replaces any entry of the key.
\<close>

definition cache_set :: "cache_store \<Rightarrow> string \<Rightarrow> CacheEntry \<Rightarrow> cache_store" where
  "cache_set store k entry = store(k \<mapsto> entry)"

text \<open>Modelled from the spec: \<open>delete(key)\<close> of the missing Cache Store (section 4.2).\<close>

definition cache_delete :: "cache_store \<Rightarrow> string \<Rightarrow> cache_store" where
  "cache_delete store k = store(k := None)"

text \<open>Modelled from the spec: \<open>deleteAll()\<close> of the missing Cache Store (section 4.2).\<close>

definition deleteAll :: "cache_store \<Rightarrow> cache_store" where
  "deleteAll store = Map.empty"

text \<open>
  Modelled from the spec: \<open>deleteByPrefix(prefix)\<close> of the missing Cache Store (section
  4.2): the entries whose key starts with the prefix are removed.
\<close>

definition deleteByPrefix :: "cache_store \<Rightarrow> string \<Rightarrow> cache_store" where
  "deleteByPrefix store p = (\<lambda>k. if is_prefix p k then None else store k)"

subsection \<open>Route Table\<close>

text \<open>
  Modelled from the spec: one step of \<open>match(path)\<close> of the missing Route Table (section
  4.3): a route whose prefix is a prefix of the path replaces a match with a shorter
  prefix.
\<close>

definition better :: "string \<Rightarrow> Route \<Rightarrow> Route option \<Rightarrow> Route option" where
  "better p r best =
     (if is_prefix (pathPrefix r) p \<and>
         (case best of None \<Rightarrow> True
          | Some b \<Rightarrow> length (pathPrefix b) < length (pathPrefix r))
      then Some r else best)"

text \<open>
  Modelled from the spec: \<open>match(path)\<close> of the missing Route Table (section 4.3): the
  route with the longest prefix of the path, the first of them in the table; \<open>None\<close> is
  no-match.
\<close>

definition match_route :: "Route list \<Rightarrow> string \<Rightarrow> Route option" where
  "match_route table p = fold (better p) table None"

subsection \<open>Invalidation Controller\<close>

text \<open>
  Modelled from the spec: \<open>invalidateByResource(prefix)\<close> of the missing Invalidation
  Controller (section 4.5): the entries whose key was built from a path under the prefix
  are removed.  Only read requests are cached, and a key starts with the method and the
  normalised path, so the prefix is normalised in the same way.
\<close>

definition invalidateByResource :: "cache_store \<Rightarrow> string \<Rightarrow> cache_store" where
  "invalidateByResource store p =
     deleteByPrefix (deleteByPrefix store (verb_name Get @ '':'' @ normalize_path p))
       (verb_name Head @ '':'' @ normalize_path p)"

subsection \<open>Request Router\<close>

text \<open>
  Modelled from the spec: the outbound request that the missing Request Router sends to a
  backend (section 4.4, step 2).
\<close>

record outbound =
  out_base :: string
  out_method :: verb
  out_path :: string
  out_query :: "(string \<times> string) list"
  out_headers :: "(string \<times> string) list"
  out_body :: string

text \<open>
  Modelled from the spec: the outcome of a call to a backend, an external collaborator
  (sections 4.4 and 7): a response, or the backend is unreachable, or the call times out.
\<close>

datatype backend_result = Responded gw_response | Unreachable | TimedOut

text \<open>
  Modelled from the spec: a backend as the missing Request Router sees it: what it answers
  to an outbound request at the first attempt (0) and at the retry (1).
\<close>

type_synonym backend = "outbound \<Rightarrow> nat \<Rightarrow> backend_result"

text \<open>
  Modelled from the spec: the idempotent reads of the missing Request Router (section 4.4,
  step 2).
\<close>

definition is_read :: "verb \<Rightarrow> bool" where
  "is_read m = (m = Get \<or> m = Head)"

text \<open>
  Modelled from the spec: the mutating writes of the missing Request Router (section 4.4,
  step 2).
\<close>

definition is_write :: "verb \<Rightarrow> bool" where
  "is_write m = (m = Post \<or> m = Put \<or> m = Patch \<or> m = Delete)"

text \<open>
  Modelled from the spec: the successful statuses of the missing Request Router (section
  4.4, steps 2 and 3).
\<close>

definition is_2xx :: "nat \<Rightarrow> bool" where
  "is_2xx c = (200 \<le> c \<and> c < 300)"

text \<open>
  Modelled from the spec: the answer of the missing Request Router when no route matches
  (section 4.4, step 1, and section 7): a 404 with a structured body \<open>{error, message}\<close>.
\<close>

definition route_not_found :: gw_response where
  "route_not_found =
     \<lparr>statusCode = 404, headers = [(''content-type'', ''application/json'')],
      content = Structured (error_body ''RouteNotFound'' ''No route matches the request path'')\<rparr>"

text \<open>
  Modelled from the spec: the answer of the missing Request Router when the backend fails
  (section 4.4, step 4, and section 7): a 504 for a timeout, a 502 otherwise.
\<close>

definition gateway_error :: "backend_result \<Rightarrow> gw_response" where
  "gateway_error f =
     (case f of
        TimedOut \<Rightarrow>
          \<lparr>statusCode = 504, headers = [(''content-type'', ''application/json'')],
           content = Structured (error_body ''BackendUnreachable'' ''The backend timed out'')\<rparr>
      | _ \<Rightarrow>
          \<lparr>statusCode = 502, headers = [(''content-type'', ''application/json'')],
           content =
             Structured (error_body ''BackendUnreachable'' ''The backend is unreachable'')\<rparr>)"

text \<open>
  Modelled from the spec: the outbound request built by the missing Request Router
  (section 4.4, step 2): the matched prefix is stripped from the path, the rest is kept,
  the headers and the body are copied.
\<close>

definition rewrite :: "Route \<Rightarrow> gw_request \<Rightarrow> outbound" where
  "rewrite r req =
     \<lparr>out_base = targetBaseURL r, out_method = gw_method req,
      out_path = drop (length (pathPrefix r)) (gw_path req),
      out_query = gw_query req, out_headers = gw_headers req, out_body = gw_body req\<rparr>"

text \<open>
  Modelled from the spec: forwarding by the missing Request Router (section 4.4, steps 2
  and 4): a call that fails is retried once.  The second component lists the calls made.
\<close>

definition forward :: "backend \<Rightarrow> Route \<Rightarrow> gw_request \<Rightarrow> backend_result \<times> outbound list" where
  "forward be r req =
     (case be (rewrite r req) 0 of
        Responded resp \<Rightarrow> (Responded resp, [rewrite r req])
      | _ \<Rightarrow> (be (rewrite r req) 1, [rewrite r req, rewrite r req]))"

text \<open>
  Modelled from the spec: the response served from the cache by the missing Request
  Router (section 4.4, step 3), with a header that marks its origin.
\<close>

definition hit_response :: "CacheEntry \<Rightarrow> gw_response" where
  "hit_response entry =
     \<lparr>statusCode = entry_statusCode entry,
      headers = entry_headers entry @ [(''x-cache'', ''HIT'')],
      content = Bytes (entry_body entry)\<rparr>"

text \<open>
  Modelled from the spec: the bytes of a response that the missing Request Router stores
  (section 4.4, step 3); a structured error has none.
\<close>

definition body_bytes :: "gw_response \<Rightarrow> string" where
  "body_bytes resp = (case content resp of Bytes b \<Rightarrow> b | Structured v \<Rightarrow> [])"

text \<open>
  Modelled from the spec: \<open>handle(request)\<close> of the missing Request Router (section
  4.4).  The result is the response, the Cache Store afterwards and the backend calls
  made; \<open>t\<close> is the instant of the request.
\<close>

definition handle ::
  "Route list \<Rightarrow> backend \<Rightarrow> int \<Rightarrow> cache_store \<Rightarrow> gw_request
     \<Rightarrow> gw_response \<times> cache_store \<times> outbound list" where
  "handle table be t store req =
     (case match_route table (gw_path req) of
        None \<Rightarrow> (route_not_found, store, [])
      | Some r \<Rightarrow>
          if \<not> cacheable r \<or> \<not> is_read (gw_method req) then
            (case forward be r req of
               (Responded resp, calls) \<Rightarrow>
                 (resp,
                  if is_write (gw_method req) \<and> is_2xx (statusCode resp)
                  then invalidateByResource store (pathPrefix r) else store,
                  calls)
             | (failure, calls) \<Rightarrow> (gateway_error failure, store, calls))
          else
            (case cache_get store t
                    (buildKey (gw_method req) (gw_path req) (gw_query req)
                       (gw_headers req)) of
               Some entry \<Rightarrow> (hit_response entry, store, [])
             | None \<Rightarrow>
                 (case forward be r req of
                    (Responded resp, calls) \<Rightarrow>
                      (resp,
                       if is_2xx (statusCode resp) \<and> body_bytes resp \<noteq> []
                       then cache_set store
                              (buildKey (gw_method req) (gw_path req) (gw_query req)
                                 (gw_headers req))
                              \<lparr>entry_key =
                                 buildKey (gw_method req) (gw_path req) (gw_query req)
                                   (gw_headers req),
                               entry_body = body_bytes resp,
                               entry_statusCode = statusCode resp,
                               entry_headers = headers resp,
                               storedAt = t,
                               ttlSeconds = route_ttlSeconds r\<rparr>
                       else store,
                       calls)
                  | (failure, calls) \<Rightarrow> (gateway_error failure, store, calls))))"

section \<open>Properties of the backend services\<close>

subsection \<open>Auxiliary facts\<close>


lemma slice_first_page: "slice xs (Finite 0) (Finite 10) = take 10 xs"
  by (simp add: slice_def relative_index_def trunc_def min_def)

lemma parseInt_defaults:
  "parseInt js (JNum (Finite 1)) = Some (Finite 1)"
  "parseInt js (JNum (Finite 10)) = Some (Finite 10)"
  by (simp_all add: parseInt_def plain_decimal_def trunc_def)

lemma paginate_default:
  "paginate js (JNum (Finite 1)) (JNum (Finite 10)) xs =
     Some (take 10 xs,
       JObj [(''page'', JNum (Finite 1)), (''limit'', JNum (Finite 10)),
             (''total'', JNum (Finite (of_nat (length xs)))),
             (''pages'', JNum (Finite (of_int \<lceil>of_nat (length xs) / (10::rat)\<rceil>)))])"
  by (simp add: paginate_def Let_def ToNumber_def parseInt_defaults js_mul_def js_sub_def
      js_add_def js_neg_def slice_first_page js_div_def Math_ceil_def)






lemma seg_literals:
  "seg ''health'' ''health''" "seg ''users'' ''users''" "seg ''products'' ''products''"
  "seg ''stock'' ''stock''" "\<not> seg ''health'' ''users''"
  by code_simp+

subsection \<open>Health checks\<close>

text \<open>
  C5.  \<open>GET /health\<close> on the user service and on the product service answers 200 with a
  JSON body that has a field \<open>status\<close> (the string \<open>healthy\<close>) and a field
  \<open>timestamp\<close> (the time of the call).
\<close>

theorem health_reports_status_and_timestamp:
  assumes "req_method req = GET" and "path req = [a]" and "seg ''health'' a"
  shows "status (fst (user_service js e users req)) = 200
       \<and> json_field ''status'' (payload (fst (user_service js e users req)))
           = Some (JStr ''healthy'')
       \<and> json_field ''timestamp'' (payload (fst (user_service js e users req)))
           = Some (JStr (now e))
       \<and> status (fst (product_service js e products req)) = 200
       \<and> json_field ''status'' (payload (fst (product_service js e products req)))
           = Some (JStr ''healthy'')
       \<and> json_field ''timestamp'' (payload (fst (product_service js e products req)))
           = Some (JStr (now e))"
  using assms
  by (simp add: user_service_def product_service_def user_health_def product_health_def
      json_field_def)

theorem health_reports_status_and_timestamp_witness:
  "req_method \<lparr>req_method = GET, path = [''health''], query = Map.empty, body = Map.empty\<rparr> = GET
   \<and> seg ''health'' ''health''
   \<and> status (fst (user_service no_string_engine sample_env (initial_users ''t'')
        \<lparr>req_method = GET, path = [''health''], query = Map.empty, body = Map.empty\<rparr>)) = 200
   \<and> json_field ''timestamp'' (payload (fst (product_service no_string_engine sample_env
        (initial_products ''t'')
        \<lparr>req_method = GET, path = [''health''], query = Map.empty, body = Map.empty\<rparr>)))
      = Some (JStr ''2024-05-01T10:00:00.000Z'')"
  using health_reports_status_and_timestamp
    [of "\<lparr>req_method = GET, path = [''health''], query = Map.empty, body = Map.empty\<rparr>"
        "''health''" no_string_engine sample_env "initial_users ''t''"
        "initial_products ''t''"]
    seg_literals(1)
  by (simp add: sample_env_def)

subsection \<open>Listing users\<close>

text \<open>
  C6.  \<open>GET /users\<close> without a role filter and with the default pagination answers 200
  with a body whose field \<open>data\<close> is the array of the first ten stored users, next to
  the pagination data, and leaves the users as they are.
\<close>

theorem get_users_first_page:
  assumes "req_method req = GET" and "path req = [a]" and "seg ''users'' a"
    and "query req ''page'' = None" and "query req ''limit'' = None"
    and "\<not> truthy_opt (query req ''role'')"
  shows "user_service js e users req =
     (\<lparr>status = 200,
       payload = JObj [(''data'', JArr (map user_json (take 10 users))),
         (''pagination'',
            JObj [(''page'', JNum (Finite 1)), (''limit'', JNum (Finite 10)),
                  (''total'', JNum (Finite (of_nat (length users)))),
                  (''pages'',
                    JNum (Finite (of_int \<lceil>of_nat (length users) / (10::rat)\<rceil>)))])]\<rparr>,
      users)"
proof -
  have "\<not> seg ''health'' a"
    using assms(3) by (auto simp: seg_def)
  then show ?thesis
    using assms
    by (simp add: user_service_def get_users_def paginate_default finish_def truthy_opt_def
        split: option.splits)
qed

theorem get_users_first_page_witness:
  "seg ''users'' ''users''
   \<and> \<not> truthy_opt (Map.empty ''role'')
   \<and> status (fst (user_service no_string_engine sample_env (initial_users ''t'')
        \<lparr>req_method = GET, path = [''users''], query = Map.empty, body = Map.empty\<rparr>)) = 200
   \<and> json_field ''data'' (payload (fst (user_service no_string_engine sample_env
        (initial_users ''t'')
        \<lparr>req_method = GET, path = [''users''], query = Map.empty, body = Map.empty\<rparr>)))
      = Some (JArr (map user_json (initial_users ''t'')))"
  using get_users_first_page
    [of "\<lparr>req_method = GET, path = [''users''], query = Map.empty, body = Map.empty\<rparr>"
        "''users''" no_string_engine sample_env "initial_users ''t''"]
    seg_literals(2)
  by (simp add: truthy_opt_def json_field_def initial_users_def)

subsection \<open>Reads change nothing\<close>

text \<open>
  C7.  A \<open>GET\<close> request, whatever its path, its query and its outcome, leaves the users
  of the user service and the products of the product service unchanged; only the
  handlers of \<open>POST\<close>, \<open>PUT\<close>, \<open>PATCH\<close> and \<open>DELETE\<close> change a collection.
\<close>

theorem read_handlers_keep_collections:
  "(req_method req = GET \<longrightarrow>
      snd (user_service js e users req) = users
      \<and> snd (product_service js e products req) = products)
   \<and> (snd (user_service js e users req) \<noteq> users \<longrightarrow> req_method req \<in> {POST, PUT, DELETE})
   \<and> (snd (product_service js e products req) \<noteq> products \<longrightarrow>
        req_method req \<in> {POST, PUT, PATCH, DELETE})"
proof (cases "req_method req")
  case GET
  then show ?thesis
    by (simp add: user_service_def product_service_def user_health_def get_users_def
        get_user_def search_users_def product_health_def get_products_def get_product_def
        search_products_def get_categories_def Let_def
        split: list.splits option.splits)
next
  case PATCH
  then show ?thesis
    by (simp add: user_service_def split: list.splits)
qed simp_all

theorem read_handlers_keep_collections_witness:
  "req_method \<lparr>req_method = GET, path = [''users'', ''search'', ''maria''], query = Map.empty,
                body = Map.empty\<rparr> = GET
   \<and> snd (user_service no_string_engine sample_env (initial_users ''t'')
        \<lparr>req_method = GET, path = [''users'', ''search'', ''maria''], query = Map.empty,
          body = Map.empty\<rparr>) = initial_users ''t''
   \<and> snd (product_service no_string_engine sample_env (initial_products ''t'')
        \<lparr>req_method = GET, path = [''users'', ''search'', ''maria''], query = Map.empty,
          body = Map.empty\<rparr>) = initial_products ''t''
   \<and> snd (user_service no_string_engine sample_env (initial_users ''t'')
        \<lparr>req_method = POST, path = [''users''], query = Map.empty,
          body = [''name'' \<mapsto> JStr ''Ana Costa'', ''email'' \<mapsto> JStr ''ana@example.com'']\<rparr>)
      \<noteq> initial_users ''t''
   \<and> req_method \<lparr>req_method = POST, path = [''users''], query = Map.empty,
          body = [''name'' \<mapsto> JStr ''Ana Costa'', ''email'' \<mapsto> JStr ''ana@example.com'']\<rparr>
      \<in> {POST, PUT, DELETE}"
proof -
  have changed: "snd (user_service no_string_engine sample_env (initial_users ''t'')
        \<lparr>req_method = POST, path = [''users''], query = Map.empty,
          body = [''name'' \<mapsto> JStr ''Ana Costa'', ''email'' \<mapsto> JStr ''ana@example.com'']\<rparr>)
      \<noteq> initial_users ''t''"
    by (simp add: user_service_def seg_literals post_users_def Let_def initial_users_def
        truthy_def strict_eq_def)
  show ?thesis
    using changed
      read_handlers_keep_collections
        [of "\<lparr>req_method = GET, path = [''users'', ''search'', ''maria''], query = Map.empty,
              body = Map.empty\<rparr>"
            no_string_engine sample_env "initial_users ''t''" "initial_products ''t''"]
      read_handlers_keep_collections
        [of "\<lparr>req_method = POST, path = [''users''], query = Map.empty,
              body = [''name'' \<mapsto> JStr ''Ana Costa'',
                      ''email'' \<mapsto> JStr ''ana@example.com'']\<rparr>"
            no_string_engine sample_env "initial_users ''t''" "initial_products ''t''"]
    by simp
qed

subsection \<open>Stock updates\<close>




subsection \<open>Creating a user\<close>

text \<open>
  C9, as the claim states it, fails: a request that repeats the email of the first user
  and has no name is answered 400, not 409.
\<close>

theorem duplicate_email_without_name_counterexample:
  "strict_eq (user_email (initial_users ''t'' ! 0)) (JStr ''joao@example.com'')
   \<and> status (fst (user_service no_string_engine sample_env (initial_users ''t'')
        \<lparr>req_method = POST, path = [''users''], query = Map.empty,
          body = [''email'' \<mapsto> JStr ''joao@example.com'']\<rparr>)) = 400"
  by (simp add: user_service_def seg_literals post_users_def initial_users_def strict_eq_def)

text \<open>
  C9, amended.  For a \<open>POST /users\<close> request whose email is strictly equal to the email
  of a stored user, the users are unchanged; the answer is 409 when the request has a name
  and its name and email are truthy, and the 400 of the validation, which runs first,
  otherwise.
\<close>

theorem duplicate_email_after_validation:
  assumes "req_method req = POST" and "path req = [a]" and "seg ''users'' a"
    and "body req ''email'' = Some email" and "u \<in> set users"
    and "strict_eq (user_email u) email"
  shows "snd (user_service js e users req) = users
       \<and> fst (user_service js e users req) =
           (if truthy_opt (body req ''name'') \<and> truthy email
            then \<lparr>status = 409,
                  payload = error_body ''Conflict'' ''User with this email already exists''\<rparr>
            else \<lparr>status = 400,
                  payload = error_body ''Validation error'' ''Name and email are required''\<rparr>)"
proof -
  from assms(5,6) have "find (\<lambda>u. strict_eq (user_email u) email) users \<noteq> None"
    by (auto simp: find_None_iff)
  then obtain x where "find (\<lambda>u. strict_eq (user_email u) email) users = Some x"
    by blast
  with assms(1-4) show ?thesis
    by (auto simp: user_service_def post_users_def truthy_opt_def split: option.splits)
qed

theorem duplicate_email_after_validation_witness:
  "seg ''users'' ''users''
   \<and> initial_users ''t'' ! 1 \<in> set (initial_users ''t'')
   \<and> strict_eq (user_email (initial_users ''t'' ! 1)) (JStr ''maria@example.com'')
   \<and> user_service no_string_engine sample_env (initial_users ''t'')
        \<lparr>req_method = POST, path = [''users''], query = Map.empty,
          body = [''name'' \<mapsto> JStr ''Maria'', ''email'' \<mapsto> JStr ''maria@example.com'']\<rparr>
      = (\<lparr>status = 409,
          payload = error_body ''Conflict'' ''User with this email already exists''\<rparr>,
         initial_users ''t'')"
proof -
  have m: "initial_users ''t'' ! 1 \<in> set (initial_users ''t'')"
    by (simp add: initial_users_def)
  have s: "strict_eq (user_email (initial_users ''t'' ! 1)) (JStr ''maria@example.com'')"
    by (simp add: initial_users_def strict_eq_def)
  show ?thesis
    using duplicate_email_after_validation
      [of "\<lparr>req_method = POST, path = [''users''], query = Map.empty,
            body = [''name'' \<mapsto> JStr ''Maria'',
                    ''email'' \<mapsto> JStr ''maria@example.com'']\<rparr>"
          "''users''" "JStr ''maria@example.com''" "initial_users ''t'' ! 1"
          "initial_users ''t''" no_string_engine sample_env]
      seg_literals(2) m s
    by (simp add: truthy_opt_def truthy_def prod_eq_iff)
qed

subsection \<open>Creating a product\<close>

text \<open>
  C10.  A \<open>POST /products\<close> request without a name, a description, a price or a category,
  or whose price satisfies \<open>price <= 0\<close>, is answered 400 with a body that has the fields
  \<open>error\<close> and \<open>message\<close>, and the products are unchanged.  A price equal to 0 is
  rejected by the check for missing fields.
\<close>

theorem post_products_rejects_invalid:
  assumes "req_method req = POST" and "path req = [a]" and "seg ''products'' a"
    and "body req ''name'' = None \<or> body req ''description'' = None
       \<or> body req ''price'' = None \<or> body req ''category'' = None
       \<or> (\<exists>price. body req ''price'' = Some price \<and> le_zero js price = Some True)"
  shows "status (fst (product_service js e products req)) = 400
       \<and> json_field ''error'' (payload (fst (product_service js e products req))) \<noteq> None
       \<and> json_field ''message'' (payload (fst (product_service js e products req))) \<noteq> None
       \<and> snd (product_service js e products req) = products
       \<and> (body req ''price'' = Some (JNum (Finite 0)) \<longrightarrow>
            fst (product_service js e products req) = required_missing)"
  using assms
  by (auto simp: product_service_def post_products_def finish_def required_missing_def
      price_not_positive_def error_body_def json_field_def truthy_def num_truthy_def
      split: option.splits)

theorem post_products_rejects_invalid_witness:
  "seg ''products'' ''products''
   \<and> le_zero no_string_engine (JNum (Finite (- 5))) = Some True
   \<and> product_service no_string_engine sample_env (initial_products ''t'')
        \<lparr>req_method = POST, path = [''products''], query = Map.empty,
          body = [''name'' \<mapsto> JStr ''Mouse'', ''description'' \<mapsto> JStr ''Mouse USB'',
                  ''price'' \<mapsto> JNum (Finite (- 5)), ''category'' \<mapsto> JStr ''electronics'']\<rparr>
      = (price_not_positive, initial_products ''t'')"
proof -
  have l: "le_zero no_string_engine (JNum (Finite (- 5))) = Some True"
    by (simp add: le_zero_def ToNumber_def js_le_def)
  have r: "product_service no_string_engine sample_env (initial_products ''t'')
        \<lparr>req_method = POST, path = [''products''], query = Map.empty,
          body = [''name'' \<mapsto> JStr ''Mouse'', ''description'' \<mapsto> JStr ''Mouse USB'',
                  ''price'' \<mapsto> JNum (Finite (- 5)), ''category'' \<mapsto> JStr ''electronics'']\<rparr>
      = (price_not_positive, initial_products ''t'')"
    by (simp add: product_service_def seg_literals post_products_def truthy_def
        num_truthy_def l finish_def)
  have "status (fst (product_service no_string_engine sample_env (initial_products ''t'')
        \<lparr>req_method = POST, path = [''products''], query = Map.empty,
          body = [''name'' \<mapsto> JStr ''Mouse'', ''description'' \<mapsto> JStr ''Mouse USB'',
                  ''price'' \<mapsto> JNum (Finite (- 5)),
                  ''category'' \<mapsto> JStr ''electronics'']\<rparr>)) = 400"
    using post_products_rejects_invalid
      [of "\<lparr>req_method = POST, path = [''products''], query = Map.empty,
            body = [''name'' \<mapsto> JStr ''Mouse'', ''description'' \<mapsto> JStr ''Mouse USB'',
                    ''price'' \<mapsto> JNum (Finite (- 5)),
                    ''category'' \<mapsto> JStr ''electronics'']\<rparr>"
          "''products''" no_string_engine sample_env "initial_products ''t''"]
      seg_literals(3) l
    by simp
  with r l seg_literals(3) show ?thesis by simp
qed

section \<open>Properties of the gateway\<close>

subsection \<open>The rendering of the query is injective\<close>

lemma escape_Nil: "escape [] = []"
  by (simp add: escape_def)

lemma escape_Cons: "escape (c # s) = escape_char c @ escape s"
  by (simp add: escape_def)

lemma escape_inj: "escape a = escape b \<Longrightarrow> a = b"
proof (induction a arbitrary: b)
  case Nil
  then show ?case
    by (cases b) (auto simp: escape_Nil escape_Cons escape_char_def split: if_splits)
next
  case (Cons c a)
  then show ?case
    by (cases b) (auto simp: escape_Nil escape_Cons escape_char_def split: if_splits)
qed

lemma escape_free: "CHR ''&'' \<notin> set (escape s)" "CHR ''='' \<notin> set (escape s)"
  by (induction s) (auto simp: escape_Nil escape_Cons escape_char_def)

lemma split_at:
  "c \<notin> set a \<Longrightarrow> c \<notin> set a' \<Longrightarrow> a @ c # b = a' @ c # b' \<Longrightarrow> a = a' \<and> b = b'"
proof (induction a arbitrary: a')
  case Nil
  then show ?case by (cases a') auto
next
  case (Cons x a)
  then show ?case by (cases a') auto
qed

lemma render_param_inj: "render_param x = render_param y \<Longrightarrow> x = y"
  using split_at[of "CHR ''=''" "escape (fst x)" "escape (fst y)" "escape (snd x)"
      "escape (snd y)"]
  by (auto simp: render_param_def escape_free dest!: escape_inj intro: prod_eqI)

lemma render_param_free: "CHR ''&'' \<notin> set (render_param x)"
  by (simp add: render_param_def escape_free)

lemma render_param_nonempty: "render_param x \<noteq> []"
  by (simp add: render_param_def)

lemma join_Cons: "join sep (x # xs) = (if xs = [] then x else x @ sep @ join sep xs)"
  by (cases xs) simp_all

lemma join_inj:
  assumes "\<forall>x \<in> set xs. c \<notin> set x \<and> x \<noteq> []" and "\<forall>y \<in> set ys. c \<notin> set y \<and> y \<noteq> []"
    and "join [c] xs = join [c] ys"
  shows "xs = ys"
  using assms
proof (induction xs arbitrary: ys)
  case Nil
  then show ?case by (cases ys) (auto simp: join_Cons split: if_splits)
next
  case (Cons x xs)
  show ?case
  proof (cases ys)
    case Nil
    with Cons.prems show ?thesis by (auto simp: join_Cons split: if_splits)
  next
    case (Cons y ys')
    note ys = this
    show ?thesis
    proof (cases "xs = [] \<or> ys' = []")
      case True
      with Cons.prems ys show ?thesis
        by (auto simp: join_Cons split: if_splits)
    next
      case False
      with Cons.prems ys have eq: "x @ c # join [c] xs = y @ c # join [c] ys'"
        by (simp add: join_Cons)
      have "c \<notin> set x" and "c \<notin> set y"
        using Cons.prems ys by auto
      from split_at[OF this eq] have heads: "x = y" and tails: "join [c] xs = join [c] ys'"
        by auto
      have "xs = ys'"
        using Cons.IH[of ys'] Cons.prems ys tails by auto
      with heads ys show ?thesis by simp
    qed
  qed
qed

lemma render_query_inj:
  assumes "join ''&'' (map render_param xs) = join ''&'' (map render_param ys)"
  shows "xs = ys"
proof -
  from assms have "map render_param xs = map render_param ys"
    by (intro join_inj[of _ "CHR ''&''"]) (auto simp: render_param_free render_param_nonempty)
  then show ?thesis
    by (metis render_param_inj inj_onI inj_map_eq_map)
qed

lemma sort_eq_iff: "(sort (q1 :: (string \<times> string) list) = sort q2) = (mset q1 = mset q2)"
  by (metis mset_sort properties_for_sort sorted_sort)

subsection \<open>Cache keys\<close>

text \<open>
  C1.  Two read requests with the same method and the same normalised path have the
  same key exactly when they have the same query parameters, in whatever order: the same
  parameters give identical keys, and a parameter value that differs gives different
  keys.  The headers play no part.
\<close>

theorem same_key_iff_same_parameters:
  assumes "normalize_path p1 = normalize_path p2"
  shows "(buildKey m p1 q1 h1 = buildKey m p2 q2 h2) = (mset q1 = mset q2)"
proof
  assume "buildKey m p1 q1 h1 = buildKey m p2 q2 h2"
  with assms
  have "join ''&'' (map render_param (sort q1)) = join ''&'' (map render_param (sort q2))"
    by (simp add: buildKey_def)
  then have "sort q1 = sort q2" by (rule render_query_inj)
  then show "mset q1 = mset q2" by (simp only: sort_eq_iff)
next
  assume "mset q1 = mset q2"
  then have "sort q1 = sort q2" by (simp only: sort_eq_iff)
  with assms show "buildKey m p1 q1 h1 = buildKey m p2 q2 h2"
    by (simp add: buildKey_def)
qed

theorem same_key_iff_same_parameters_witness:
  "normalize_path ''/products'' = normalize_path ''/products/''
   \<and> buildKey Get ''/products'' [(''a'', ''1''), (''b'', ''2'')] []
       = buildKey Get ''/products/'' [(''b'', ''2''), (''a'', ''1'')] [(''accept'', ''*/*'')]
   \<and> buildKey Get ''/products'' [(''a'', ''1''), (''b'', ''2'')] []
       \<noteq> buildKey Get ''/products/'' [(''a'', ''1''), (''b'', ''3'')] []"
proof -
  have n: "normalize_path ''/products'' = normalize_path ''/products/''"
    by (simp add: normalize_path_def)
  show ?thesis
    using n
      same_key_iff_same_parameters[OF n, of Get "[(''a'', ''1''), (''b'', ''2'')]" "[]"
        "[(''b'', ''2''), (''a'', ''1'')]" "[(''accept'', ''*/*'')]"]
      same_key_iff_same_parameters[OF n, of Get "[(''a'', ''1''), (''b'', ''2'')]" "[]"
        "[(''a'', ''1''), (''b'', ''3'')]" "[]"]
    by (simp add: add_mset_commute)
qed

subsection \<open>Routing and the store\<close>

lemma fold_better_keeps:
  "\<forall>r \<in> set table. \<not> is_prefix (pathPrefix r) p \<Longrightarrow> fold (better p) table best = best"
  by (induction table arbitrary: best) (simp_all add: better_def)

lemma match_route_none:
  "\<forall>r \<in> set table. \<not> is_prefix (pathPrefix r) p \<Longrightarrow> match_route table p = None"
  by (simp add: match_route_def fold_better_keeps)

lemma forward_calls: "\<exists>calls. snd (forward be r req) = rewrite r req # calls"
  by (simp add: forward_def split: backend_result.splits)

subsection \<open>Invalidation has no false negative\<close>

text \<open>
  After \<open>invalidateByResource(prefix)\<close> no entry is left whose key was built from a read
  request with a path under the prefix.
\<close>

lemma is_prefix_append: "is_prefix p (p @ r)"
  by (induction p) simp_all

lemma is_prefix_iff: "is_prefix p s = (\<exists>r. s = p @ r)"
proof (induction p s rule: is_prefix.induct)
  case (1 s)
  then show ?case by simp
next
  case (2 c t)
  then show ?case by simp
next
  case (3 c t d s)
  then show ?case by auto
qed

lemma normalize_path_rest:
  "\<exists>t. p = normalize_path p @ t \<and> (\<forall>c \<in> set t. c = CHR ''/'')"
proof -
  let ?P = "\<lambda>c. c = CHR ''/''"
  have "rev p = takeWhile ?P (rev p) @ dropWhile ?P (rev p)" by simp
  then have "p = rev (dropWhile ?P (rev p)) @ rev (takeWhile ?P (rev p))"
    by (metis rev_append rev_rev_ident)
  moreover have "\<forall>c \<in> set (rev (takeWhile ?P (rev p))). c = CHR ''/''"
    by (auto dest: set_takeWhileD)
  ultimately show ?thesis
    unfolding normalize_path_def by blast
qed

lemma normalize_path_append:
  "normalize_path (a @ b) =
     (if \<forall>c \<in> set b. c = CHR ''/'' then normalize_path a else a @ normalize_path b)"
  by (auto simp: normalize_path_def dropWhile_append)

lemma normalize_path_prefix:
  assumes "is_prefix p pth"
  shows "is_prefix (normalize_path p) (normalize_path pth)"
proof -
  from assms obtain r where r: "pth = p @ r" by (auto simp: is_prefix_iff)
  obtain t where t: "p = normalize_path p @ t" using normalize_path_rest by blast
  show ?thesis
  proof (cases "\<forall>c \<in> set r. c = CHR ''/''")
    case True
    then show ?thesis by (simp add: r normalize_path_append is_prefix_iff)
  next
    case False
    then have "normalize_path pth = p @ normalize_path r"
      by (auto simp: r normalize_path_append)
    also have "\<dots> = normalize_path p @ (t @ normalize_path r)"
      using t by (metis append_assoc)
    finally show ?thesis by (simp only: is_prefix_append)
  qed
qed

lemma invalidation_reaches_every_read:
  assumes "is_read m" and "is_prefix p pth"
  shows "invalidateByResource store p (buildKey m pth q h) = None"
proof -
  obtain r where "normalize_path pth = normalize_path p @ r"
    using normalize_path_prefix[OF assms(2)] by (auto simp: is_prefix_iff)
  then have "is_prefix (verb_name m @ '':'' @ normalize_path p) (buildKey m pth q h)"
    by (simp add: buildKey_def is_prefix_iff)
  with assms(1) show ?thesis
    by (auto simp: invalidateByResource_def deleteByPrefix_def is_read_def)
qed

text \<open>
  C2.  An entry whose \<open>storedAt + ttlSeconds\<close> has elapsed at the instant \<open>t\<close> is
  absent for \<open>get\<close> at \<open>t\<close>, and a cacheable read request for its key at \<open>t\<close> calls
  the backend.
\<close>

theorem expired_entry_is_absent:
  assumes "store k = Some entry" and "storedAt entry + ttlSeconds entry \<le> t"
  shows "cache_get store t k = None
       \<and> (\<forall>table be req r.
             match_route table (gw_path req) = Some r \<and> cacheable r
             \<and> is_read (gw_method req)
             \<and> buildKey (gw_method req) (gw_path req) (gw_query req) (gw_headers req) = k
             \<longrightarrow> (\<exists>calls. snd (snd (handle table be t store req)) = rewrite r req # calls))"
proof -
  have absent: "cache_get store t k = None"
    using assms by (simp add: cache_get_def)
  have "\<exists>calls. snd (snd (handle table be t store req)) = rewrite r req # calls"
    if "match_route table (gw_path req) = Some r" "cacheable r" "is_read (gw_method req)"
       "buildKey (gw_method req) (gw_path req) (gw_query req) (gw_headers req) = k"
    for table be req r
    using that absent forward_calls[of be r req]
    by (cases "forward be r req") (auto simp: handle_def split: backend_result.splits)
  with absent show ?thesis by blast
qed

theorem expired_entry_is_absent_witness:
  "[''GET:/api/users/users?'' \<mapsto>
      \<lparr>entry_key = ''GET:/api/users/users?'', entry_body = ''{}'', entry_statusCode = 200,
       entry_headers = [], storedAt = 1000, ttlSeconds = 30\<rparr>] ''GET:/api/users/users?''
     = Some \<lparr>entry_key = ''GET:/api/users/users?'', entry_body = ''{}'',
             entry_statusCode = 200, entry_headers = [], storedAt = 1000, ttlSeconds = 30\<rparr>
   \<and> (1000::int) + 30 \<le> 1030
   \<and> cache_get
        [''GET:/api/users/users?'' \<mapsto>
           \<lparr>entry_key = ''GET:/api/users/users?'', entry_body = ''{}'', entry_statusCode = 200,
            entry_headers = [], storedAt = 1000, ttlSeconds = 30\<rparr>]
        1030 ''GET:/api/users/users?'' = None
   \<and> snd (snd (handle
        [\<lparr>pathPrefix = ''/api/users'', targetBaseURL = ''http://user-service:3001'',
          cacheable = True, route_ttlSeconds = 30\<rparr>]
        (\<lambda>out attempt. Unreachable) 1030
        [''GET:/api/users/users?'' \<mapsto>
           \<lparr>entry_key = ''GET:/api/users/users?'', entry_body = ''{}'', entry_statusCode = 200,
            entry_headers = [], storedAt = 1000, ttlSeconds = 30\<rparr>]
        \<lparr>gw_method = Get, gw_path = ''/api/users/users'', gw_query = [],
          gw_headers = [], gw_body = []\<rparr>)) \<noteq> []"
proof -
  let ?entry = "\<lparr>entry_key = ''GET:/api/users/users?'', entry_body = ''{}'',
             entry_statusCode = 200, entry_headers = [], storedAt = 1000, ttlSeconds = 30\<rparr>"
  let ?store = "[''GET:/api/users/users?'' \<mapsto> ?entry]"
  let ?r = "\<lparr>pathPrefix = ''/api/users'', targetBaseURL = ''http://user-service:3001'',
          cacheable = True, route_ttlSeconds = 30\<rparr>"
  let ?req = "\<lparr>gw_method = Get, gw_path = ''/api/users/users'', gw_query = [],
          gw_headers = [], gw_body = []\<rparr>"
  have h1: "?store ''GET:/api/users/users?'' = Some ?entry" by simp
  have h2: "storedAt ?entry + ttlSeconds ?entry \<le> 1030" by simp
  note T = expired_entry_is_absent[of ?store "''GET:/api/users/users?''" ?entry 1030, OF h1 h2]
  have m: "match_route [?r] (gw_path ?req) = Some ?r"
    by (simp add: match_route_def better_def)
  have k: "buildKey (gw_method ?req) (gw_path ?req) (gw_query ?req) (gw_headers ?req)
      = ''GET:/api/users/users?''"
    by (simp add: buildKey_def verb_name_def normalize_path_def)
  from T have a: "cache_get ?store 1030 ''GET:/api/users/users?'' = None" by blast
  from T m k
  have "\<exists>calls. snd (snd (handle [?r] (\<lambda>out attempt. Unreachable) 1030 ?store ?req))
      = rewrite ?r ?req # calls"
    by (simp add: is_read_def)
  then have "snd (snd (handle [?r] (\<lambda>out attempt. Unreachable) 1030 ?store ?req)) \<noteq> []"
    by auto
  with a h1 show ?thesis by simp
qed

text \<open>
  C3.  For a cacheable read request on a cacheable route, when the backend answers with
  a status that is not 2xx, or is unreachable or times out after the retry, the Cache
  Store is left as it was.  On a miss the client receives the answer of the backend as it
  is, or the 502 or 504 of the gateway.
\<close>

theorem failures_are_never_cached:
  assumes "match_route table (gw_path req) = Some r" and "cacheable r"
    and "is_read (gw_method req)"
    and "case fst (forward be r req) of
           Responded resp \<Rightarrow> \<not> is_2xx (statusCode resp)
         | _ \<Rightarrow> True"
  shows "fst (snd (handle table be t store req)) = store
       \<and> (cache_get store t
             (buildKey (gw_method req) (gw_path req) (gw_query req) (gw_headers req)) = None
           \<longrightarrow> (case fst (forward be r req) of
                  Responded resp \<Rightarrow> fst (handle table be t store req) = resp
                | failure \<Rightarrow>
                    fst (handle table be t store req) = gateway_error failure
                    \<and> statusCode (gateway_error failure) \<in> {502, 504}))"
  using assms
  by (cases "forward be r req")
     (auto simp: handle_def gateway_error_def split: backend_result.splits option.splits)

theorem failures_are_never_cached_witness:
  "match_route
      [\<lparr>pathPrefix = ''/api/users'', targetBaseURL = ''http://user-service:3001'',
        cacheable = True, route_ttlSeconds = 30\<rparr>] ''/api/users/users''
     = Some \<lparr>pathPrefix = ''/api/users'', targetBaseURL = ''http://user-service:3001'',
             cacheable = True, route_ttlSeconds = 30\<rparr>
   \<and> is_read Get
   \<and> \<not> is_2xx 500
   \<and> statusCode (fst (handle
        [\<lparr>pathPrefix = ''/api/users'', targetBaseURL = ''http://user-service:3001'',
          cacheable = True, route_ttlSeconds = 30\<rparr>]
        (\<lambda>out attempt. Responded \<lparr>statusCode = 500, headers = [], content = Bytes ''down''\<rparr>)
        0 Map.empty
        \<lparr>gw_method = Get, gw_path = ''/api/users/users'', gw_query = [],
          gw_headers = [], gw_body = []\<rparr>)) = 500
   \<and> fst (snd (handle
        [\<lparr>pathPrefix = ''/api/users'', targetBaseURL = ''http://user-service:3001'',
          cacheable = True, route_ttlSeconds = 30\<rparr>]
        (\<lambda>out attempt. Responded \<lparr>statusCode = 500, headers = [], content = Bytes ''down''\<rparr>)
        0 Map.empty
        \<lparr>gw_method = Get, gw_path = ''/api/users/users'', gw_query = [],
          gw_headers = [], gw_body = []\<rparr>)) = Map.empty"
proof -
  let ?r = "\<lparr>pathPrefix = ''/api/users'', targetBaseURL = ''http://user-service:3001'',
          cacheable = True, route_ttlSeconds = 30\<rparr>"
  let ?req = "\<lparr>gw_method = Get, gw_path = ''/api/users/users'', gw_query = [],
          gw_headers = [], gw_body = []\<rparr>"
  let ?be = "\<lambda>(out::outbound) (attempt::nat).
      Responded \<lparr>statusCode = 500, headers = [], content = Bytes ''down''\<rparr>"
  have m: "match_route [?r] (gw_path ?req) = Some ?r"
    by (simp add: match_route_def better_def)
  have c: "cacheable ?r" by simp
  have rd: "is_read (gw_method ?req)" by (simp add: is_read_def)
  have f: "case fst (forward ?be ?r ?req) of
             Responded resp \<Rightarrow> \<not> is_2xx (statusCode resp) | _ \<Rightarrow> True"
    by (simp add: forward_def is_2xx_def)
  have g: "cache_get Map.empty 0
      (buildKey (gw_method ?req) (gw_path ?req) (gw_query ?req) (gw_headers ?req)) = None"
    by (simp add: cache_get_def)
  from failures_are_never_cached[OF m c rd f, of 0 Map.empty] g
  have "fst (snd (handle [?r] ?be 0 Map.empty ?req)) = Map.empty"
    and "statusCode (fst (handle [?r] ?be 0 Map.empty ?req)) = 500"
    by (simp_all add: forward_def)
  with m rd show ?thesis by (simp add: is_2xx_def)
qed

text \<open>
  C4.  A request whose path has no route prefix in the Route Table is answered 404 with
  a structured JSON body that has the fields \<open>error\<close> and \<open>message\<close>; no backend is
  called and the Cache Store is left as it was.
\<close>

theorem no_route_gives_404:
  assumes "\<forall>r \<in> set table. \<not> is_prefix (pathPrefix r) (gw_path req)"
  shows "handle table be t store req = (route_not_found, store, [])
       \<and> statusCode route_not_found = 404
       \<and> (\<exists>v e m. content route_not_found = Structured v
             \<and> json_field ''error'' v = Some (JStr e)
             \<and> json_field ''message'' v = Some (JStr m))"
  using match_route_none[OF assms]
  by (simp add: handle_def route_not_found_def error_body_def json_field_def)

theorem no_route_gives_404_witness:
  "\<not> is_prefix ''/api/users'' ''/metrics''
   \<and> handle
        [\<lparr>pathPrefix = ''/api/users'', targetBaseURL = ''http://user-service:3001'',
          cacheable = True, route_ttlSeconds = 30\<rparr>]
        (\<lambda>out attempt. TimedOut) 0 Map.empty
        \<lparr>gw_method = Get, gw_path = ''/metrics'', gw_query = [], gw_headers = [],
          gw_body = []\<rparr>
      = (route_not_found, Map.empty, [])"
proof -
  have p: "\<forall>r \<in> set [\<lparr>pathPrefix = ''/api/users'',
        targetBaseURL = ''http://user-service:3001'', cacheable = True,
        route_ttlSeconds = 30\<rparr>].
      \<not> is_prefix (pathPrefix r)
          (gw_path \<lparr>gw_method = Get, gw_path = ''/metrics'', gw_query = [],
             gw_headers = [], gw_body = []\<rparr>)"
    by simp
  from no_route_gives_404[OF p, of "\<lambda>out attempt. TimedOut" 0 Map.empty]
  show ?thesis by simp
qed

end
